theory Spec2Isabelle
  imports Complex_Main "HOL-Library.Sublist" "HOL-Library.Word"
begin

section \<open>Workflow dashboard: the state-derivation layer of workflow-dashboard.tsx\<close>

text \<open>
  The component \<^verbatim>\<open>WorkflowDashboard\<close> keeps four pieces of state (client filter, status
  filter, search term, selected workflow id) and derives from them, on every render, the
  filtered workflow list, the summary metrics and the selected workflow. The helper
  \<^verbatim>\<open>formatRelative\<close> turns a timestamp into a relative label.

  Conventions of the embedding:
  \<^item> A JavaScript string that comes from the data or from user input is a list of UTF-16
    code units. \<^verbatim>\<open>String.prototype.toLowerCase\<close> is a builtin of the JavaScript engine, whose
    mapping is the Unicode case conversion and is no part of the repository: the filter
    takes it as a parameter \<open>lower\<close>, so that what is proved of the filter for every \<open>lower\<close>
    holds of the builtin. The labels that \<^verbatim>\<open>formatRelative\<close> prints are ASCII and are written
    as string literals.
  \<^item> A JavaScript number that holds a time in milliseconds is an \<open>int\<close>; quotients are
    rationals, so \<^verbatim>\<open>diffMs / 60000\<close> is exact. This agrees with double arithmetic for
    every pair of timestamps whose difference is below \<open>2^53\<close> ms.
  \<^item> \<^verbatim>\<open>undefined\<close> and \<^verbatim>\<open>null\<close> results are \<open>None\<close>.
\<close>

subsection \<open>Strings\<close>

text \<open>
  A JavaScript string is a sequence of UTF-16 code units. A string literal of the source,
  which is ASCII, is written \<open>str ''...''\<close>.
\<close>

type_synonym code_unit = "16 word"

type_synonym jsstring = "code_unit list"

definition str :: "string \<Rightarrow> jsstring" where
  "str s = map of_char s"

text \<open>
  \<^verbatim>\<open>s.includes(t)\<close>: true iff \<open>t\<close> occurs in \<open>s\<close> at some position, as a run of
  consecutive code units; the empty string occurs in every string.
\<close>

fun includes_str :: "jsstring \<Rightarrow> jsstring \<Rightarrow> bool" where
  "includes_str [] t = (t = [])"
| "includes_str (c # s) t = (prefix t (c # s) \<or> includes_str s t)"

subsection \<open>Data model\<close>

datatype WorkflowStatus = Healthy | Warning | Failed | Paused

datatype SlaBreachRisk = Low | Medium | High

text \<open>
  Modelled from the spec: the types \<^verbatim>\<open>Workflow\<close> and \<^verbatim>\<open>WorkflowStatus\<close> are imported from
  \<^verbatim>\<open>@/data/workflows\<close>, which is not among the sources. The fields are those of section 3
  of the specification; the component reads \<open>id\<close>, \<open>name\<close>, \<open>client\<close>, \<open>status\<close> and the
  display fields. The four status values are also the keys of \<^verbatim>\<open>statusConfig\<close>. The
  timestamps are ISO strings (\<^verbatim>\<open>formatRelative(iso: string)\<close>).
\<close>

record Run =
  id_run :: jsstring
  timestamp :: jsstring
  durationSeconds :: rat
  errors :: nat

record Workflow =
  id_wf :: jsstring
  name :: jsstring
  client :: jsstring
  owner :: jsstring
  status :: WorkflowStatus
  triggers :: "jsstring list"
  runsToday :: nat
  successRate :: rat
  slaBreachRisk :: SlaBreachRisk
  lastRunAt :: jsstring
  nextRunAt :: "jsstring option"
  runHistory :: "Run list"

text \<open>
  The status filter has type \<^verbatim>\<open>WorkflowStatus | "all"\<close>. The client filter is a plain
  string whose value \<^verbatim>\<open>"all"\<close> stands for no constraint.
\<close>

datatype StatusFilter = AllStatuses | OnlyStatus WorkflowStatus

subsection \<open>The filter (lines 99 to 111)\<close>

definition matchesClient :: "jsstring \<Rightarrow> Workflow \<Rightarrow> bool" where
  "matchesClient clientFilter workflow \<longleftrightarrow>
     clientFilter = str ''all'' \<or> client workflow = clientFilter"

definition matchesStatus :: "StatusFilter \<Rightarrow> Workflow \<Rightarrow> bool" where
  "matchesStatus statusFilter workflow \<longleftrightarrow>
     statusFilter = AllStatuses \<or> OnlyStatus (status workflow) = statusFilter"

definition matchesSearch :: "(jsstring \<Rightarrow> jsstring) \<Rightarrow> jsstring \<Rightarrow> Workflow \<Rightarrow> bool" where
  "matchesSearch lower searchTerm workflow \<longleftrightarrow>
     length searchTerm = 0 \<or>
     includes_str (lower (name workflow)) (lower searchTerm) \<or>
     includes_str (lower (client workflow)) (lower searchTerm)"

definition filteredWorkflows ::
  "(jsstring \<Rightarrow> jsstring) \<Rightarrow> Workflow list \<Rightarrow> jsstring \<Rightarrow> StatusFilter \<Rightarrow> jsstring \<Rightarrow> Workflow list" where
  "filteredWorkflows lower initialWorkflows clientFilter statusFilter searchTerm =
     filter (\<lambda>workflow.
        matchesClient clientFilter workflow \<and>
        matchesStatus statusFilter workflow \<and>
        matchesSearch lower searchTerm workflow) initialWorkflows"

subsection \<open>The client selector (lines 94 to 97)\<close>

text \<open>
  \<^verbatim>\<open>Array.from(new Set(xs))\<close> keeps the first occurrence of every value, in order.
\<close>

definition clients :: "Workflow list \<Rightarrow> jsstring list" where
  "clients initialWorkflows =
     str ''all'' # rev (remdups (rev (map client initialWorkflows)))"

subsection \<open>The selected workflow (lines 118 to 123)\<close>

text \<open>
  \<^verbatim>\<open>xs[i]\<close> is \<^verbatim>\<open>undefined\<close> out of range, and \<^verbatim>\<open>a ?? b\<close> is \<open>b\<close> when \<open>a\<close> is \<^verbatim>\<open>undefined\<close> or
  \<^verbatim>\<open>null\<close>. \<^verbatim>\<open>Array.prototype.find\<close> is \<^const>\<open>find\<close>: the first element that satisfies
  the predicate.
\<close>

definition at_index :: "'a list \<Rightarrow> nat \<Rightarrow> 'a option" where
  "at_index xs i = (if i < length xs then Some (xs ! i) else None)"

definition nullish :: "'a option \<Rightarrow> 'a option \<Rightarrow> 'a option" where
  "nullish a b = (case a of Some v \<Rightarrow> Some v | None \<Rightarrow> b)"

definition selectedWorkflow :: "Workflow list \<Rightarrow> jsstring \<Rightarrow> Workflow option" where
  "selectedWorkflow filtered selectedId =
     (let byId = nullish (find (\<lambda>workflow. id_wf workflow = selectedId) filtered)
                         (at_index filtered 0)
      in nullish byId None)"

subsection \<open>The relative-time label (lines 60 to 80)\<close>

text \<open>
  \<^verbatim>\<open>Math.round\<close> returns the nearest integer, and of two equally near integers the greater
  one: \<^verbatim>\<open>Math.round(2.5)\<close> is 3 and \<^verbatim>\<open>Math.round(-2.5)\<close> is -2.
\<close>

definition Math_round :: "rat \<Rightarrow> int" where
  "Math_round x = \<lfloor>x + 1 / 2\<rfloor>"

text \<open>The decimal numeral of an integer, as a template literal prints it.\<close>

function digits :: "nat \<Rightarrow> string" where
  "digits n = (if n < 10 then [char_of (48 + n)]
               else digits (n div 10) @ [char_of (48 + n mod 10)])"
  by pat_completeness auto
termination
  by (relation "measure (\<lambda>n. n)") auto

declare digits.simps [simp del]

definition number_toString :: "int \<Rightarrow> string" where
  "number_toString i = (if i < 0 then CHR ''-'' # digits (nat (- i)) else digits (nat i))"

text \<open>The local constants of the function body, each as a function of \<open>diffMs\<close>.\<close>

definition futureMinutes :: "int \<Rightarrow> int" where
  "futureMinutes diffMs = \<bar>Math_round (of_int diffMs / 60000)\<bar>"

definition futureHours :: "int \<Rightarrow> int" where
  "futureHours diffMs = Math_round (of_int (futureMinutes diffMs) / 60)"

definition futureDays :: "int \<Rightarrow> int" where
  "futureDays diffMs = Math_round (of_int (futureHours diffMs) / 24)"

definition diffMins :: "int \<Rightarrow> int" where
  "diffMins diffMs = Math_round (of_int diffMs / 60000)"

definition diffHours :: "int \<Rightarrow> int" where
  "diffHours diffMs = Math_round (of_int (diffMins diffMs) / 60)"

definition diffDays :: "int \<Rightarrow> int" where
  "diffDays diffMs = Math_round (of_int (diffHours diffMs) / 24)"

definition formatDiff :: "int \<Rightarrow> string" where
  "formatDiff diffMs =
     (if diffMs < 0 then
        (if futureMinutes diffMs < 1 then ''In moments''
         else if futureMinutes diffMs < 60
           then ''In '' @ number_toString (futureMinutes diffMs) @ '' min''
         else if futureHours diffMs < 24
           then ''In '' @ number_toString (futureHours diffMs) @ '' hr''
         else ''In '' @ number_toString (futureDays diffMs) @ ''d'')
      else if diffMins diffMs < 1 then ''Now''
      else if diffMins diffMs < 60 then number_toString (diffMins diffMs) @ '' min ago''
      else if diffHours diffMs < 24 then number_toString (diffHours diffMs) @ '' hr ago''
      else number_toString (diffDays diffMs) @ ''d ago'')"

text \<open>
  \<^verbatim>\<open>formatRelative(iso)\<close> has one parameter. Its first line, \<^verbatim>\<open>const now = new Date()\<close>,
  reads the system clock: the first argument of the model is that reading, in
  milliseconds, and belongs to the environment of the call, not to its arguments. The
  second argument is \<^verbatim>\<open>new Date(iso).getTime()\<close>: \<open>None\<close> when the string is no date, in
  which case \<open>diffMs\<close> is \<^verbatim>\<open>NaN\<close>, every comparison is false and the last line prints it.
\<close>

definition formatRelative :: "int \<Rightarrow> int option \<Rightarrow> string" where
  "formatRelative clock_ms then_ms =
     (case then_ms of
        None \<Rightarrow> ''NaNd ago''
      | Some t \<Rightarrow> formatDiff (clock_ms - t))"

subsection \<open>The component: state, hooks and render (lines 82 to 123)\<close>

record DashboardState =
  clientFilter :: jsstring
  statusFilter :: StatusFilter
  searchTerm :: jsstring
  selectedWorkflowId :: jsstring

text \<open>The initial values given to the four \<^verbatim>\<open>useState\<close> calls.\<close>

definition initialState :: "Workflow list \<Rightarrow> DashboardState" where
  "initialState initialWorkflows =
     \<lparr> clientFilter = str ''all'',
       statusFilter = AllStatuses,
       searchTerm = [],
       selectedWorkflowId =
         (case at_index initialWorkflows 0 of Some w \<Rightarrow> id_wf w | None \<Rightarrow> []) \<rparr>"

text \<open>
  The four setters, each called from one handler: the client selector's \<^verbatim>\<open>onChange\<close>
  (line 184), a status button's \<^verbatim>\<open>onClick\<close> (line 202), the search box's \<^verbatim>\<open>onChange\<close>
  (line 212) and a table row's \<^verbatim>\<open>onClick\<close> (line 231).
\<close>

datatype Action =
    SetClientFilter jsstring
  | SetStatusFilter StatusFilter
  | SetSearchTerm jsstring
  | SetSelectedWorkflowId jsstring

fun dispatch :: "DashboardState \<Rightarrow> Action \<Rightarrow> DashboardState" where
  "dispatch st (SetClientFilter v) = st\<lparr>clientFilter := v\<rparr>"
| "dispatch st (SetStatusFilter v) = st\<lparr>statusFilter := v\<rparr>"
| "dispatch st (SetSearchTerm v) = st\<lparr>searchTerm := v\<rparr>"
| "dispatch st (SetSelectedWorkflowId v) = st\<lparr>selectedWorkflowId := v\<rparr>"

text \<open>
  \<^verbatim>\<open>useMemo(compute, deps)\<close> returns the value cached by the previous render when the
  dependencies are the same, and otherwise the value computed now, which it caches. The
  first argument is the value the closure would compute in the current render; the cell
  is \<open>None\<close> before the first render. Dependencies are compared as values: the arrays
  involved are never mutated in place, so equal references hold equal values, and a
  recomputation on a fresh reference with an equal value returns an equal result.
\<close>

definition useMemo :: "'v \<Rightarrow> 'd \<Rightarrow> ('d \<times> 'v) option \<Rightarrow> 'v \<times> ('d \<times> 'v) option" where
  "useMemo computed deps cell =
     (case cell of
        None \<Rightarrow> (computed, Some (deps, computed))
      | Some (d, v) \<Rightarrow> if d = deps then (v, cell) else (computed, Some (deps, computed)))"

record 's Hooks =
  memo_clients :: "(Workflow list \<times> jsstring list) option"
  memo_filtered ::
    "((jsstring \<times> StatusFilter \<times> jsstring \<times> Workflow list) \<times> Workflow list) option"
  memo_summary :: "(Workflow list \<times> 's) option"
  memo_selected :: "((Workflow list \<times> jsstring) \<times> Workflow option) option"

record 's View =
  view_clients :: "jsstring list"
  view_filtered :: "Workflow list"
  view_summary :: 's
  view_selected :: "Workflow option"

text \<open>
  One render of the component. \<^verbatim>\<open>computeSummaryMetrics\<close> is imported from \<^verbatim>\<open>@/lib/metrics\<close>,
  which is not among the sources: the render takes it as a parameter, after the builtin
  \<open>lower\<close>.
\<close>

definition WorkflowDashboard ::
  "(jsstring \<Rightarrow> jsstring) \<Rightarrow> (Workflow list \<Rightarrow> 's) \<Rightarrow> Workflow list \<Rightarrow> DashboardState \<Rightarrow>
     's Hooks \<Rightarrow> 's View \<times> 's Hooks" where
  "WorkflowDashboard lower computeSummary initialWorkflows st hks =
     (let (cl, m1) = useMemo (clients initialWorkflows) initialWorkflows (memo_clients hks);
          (fw, m2) = useMemo
             (filteredWorkflows lower initialWorkflows (clientFilter st) (statusFilter st)
                (searchTerm st))
             (clientFilter st, statusFilter st, searchTerm st, initialWorkflows)
             (memo_filtered hks);
          (su, m3) = useMemo (computeSummary fw) fw (memo_summary hks);
          (sel, m4) = useMemo (selectedWorkflow fw (selectedWorkflowId st))
             (fw, selectedWorkflowId st) (memo_selected hks)
      in (\<lparr> view_clients = cl, view_filtered = fw, view_summary = su, view_selected = sel \<rparr>,
          \<lparr> memo_clients = m1, memo_filtered = m2, memo_summary = m3, memo_selected = m4 \<rparr>))"

text \<open>
  A mounted instance: the props of its last render, its state, its memo cells and what it
  last rendered. An event is a call of a setter or a render with new props; both
  re-render.
\<close>

record 's Instance =
  props :: "Workflow list"
  state :: DashboardState
  hooks :: "'s Hooks"
  view :: "'s View"

datatype Event = User Action | NewProps "Workflow list"

definition rendered ::
  "(jsstring \<Rightarrow> jsstring) \<Rightarrow> (Workflow list \<Rightarrow> 's) \<Rightarrow> Workflow list \<Rightarrow> DashboardState \<Rightarrow>
     's Hooks \<Rightarrow> 's Instance" where
  "rendered lower computeSummary ws st h =
     (let (v, h') = WorkflowDashboard lower computeSummary ws st h
      in \<lparr> props = ws, state = st, hooks = h', view = v \<rparr>)"

definition mount ::
  "(jsstring \<Rightarrow> jsstring) \<Rightarrow> (Workflow list \<Rightarrow> 's) \<Rightarrow> Workflow list \<Rightarrow> 's Instance" where
  "mount lower computeSummary initialWorkflows =
     rendered lower computeSummary initialWorkflows (initialState initialWorkflows)
       \<lparr> memo_clients = None, memo_filtered = None, memo_summary = None, memo_selected = None \<rparr>"

fun step ::
  "(jsstring \<Rightarrow> jsstring) \<Rightarrow> (Workflow list \<Rightarrow> 's) \<Rightarrow> 's Instance \<Rightarrow> Event \<Rightarrow> 's Instance" where
  "step lower computeSummary inst (User a) =
     rendered lower computeSummary (props inst) (dispatch (state inst) a) (hooks inst)"
| "step lower computeSummary inst (NewProps ws) =
     rendered lower computeSummary ws (state inst) (hooks inst)"

definition run ::
  "(jsstring \<Rightarrow> jsstring) \<Rightarrow> (Workflow list \<Rightarrow> 's) \<Rightarrow> Workflow list \<Rightarrow> Event list \<Rightarrow>
     's Instance" where
  "run lower computeSummary initialWorkflows evs =
     foldl (step lower computeSummary) (mount lower computeSummary initialWorkflows) evs"

fun is_selection :: "Event \<Rightarrow> bool" where
  "is_selection (User (SetSelectedWorkflowId v)) = True"
| "is_selection e = False"

subsection \<open>The summary metrics\<close>

text \<open>
  A JavaScript number that results from a division: a rational, or one of the values a
  division by zero yields.
\<close>

datatype number = Num rat | NaN | PosInfinity | NegInfinity

definition js_divide :: "rat \<Rightarrow> rat \<Rightarrow> number" where
  "js_divide a b =
     (if b \<noteq> 0 then Num (a / b)
      else if a = 0 then NaN
      else if 0 < a then PosInfinity else NegInfinity)"

record Summary =
  totalWorkflows :: nat
  healthy :: nat
  warning :: nat
  failed :: nat
  paused :: nat
  totalRunsToday :: nat
  avgSuccessRate :: number
  averageDurationSeconds :: number

text \<open>
  Modelled from the spec: \<^verbatim>\<open>computeSummaryMetrics\<close> is imported from \<^verbatim>\<open>@/lib/metrics\<close>, which
  is not among the sources. Section 4.2 of the specification: the number of workflows,
  the count of each status, the sum of \<open>runsToday\<close>, the arithmetic mean of \<open>successRate\<close>
  over the sequence, and the mean of \<open>durationSeconds\<close> over all runs of all workflows,
  flattened; either mean is defined as 0 when there is nothing to average.
\<close>

definition mean :: "rat list \<Rightarrow> number" where
  "mean xs = (if length xs = 0 then Num 0 else js_divide (sum_list xs) (of_nat (length xs)))"

definition count_status :: "WorkflowStatus \<Rightarrow> Workflow list \<Rightarrow> nat" where
  "count_status s ws = length (filter (\<lambda>w. status w = s) ws)"

definition computeSummaryMetrics :: "Workflow list \<Rightarrow> Summary" where
  "computeSummaryMetrics ws =
     \<lparr> totalWorkflows = length ws,
       healthy = count_status Healthy ws,
       warning = count_status Warning ws,
       failed = count_status Failed ws,
       paused = count_status Paused ws,
       totalRunsToday = sum_list (map runsToday ws),
       avgSuccessRate = mean (map successRate ws),
       averageDurationSeconds = mean (map durationSeconds (concat (map runHistory ws))) \<rparr>"

subsection \<open>Notions of the specification\<close>




text \<open>
  The two rounding rules the specification names, and the rule that rounds a tie toward
  zero.
\<close>

definition round_half_away :: "rat \<Rightarrow> int" where
  "round_half_away x = (if 0 \<le> x then \<lfloor>x + 1 / 2\<rfloor> else \<lceil>x - 1 / 2\<rceil>)"

definition round_half_even :: "rat \<Rightarrow> int" where
  "round_half_even x =
     (let f = \<lfloor>x\<rfloor>; r = x - of_int f
      in if r < 1 / 2 then f else if 1 / 2 < r then f + 1
         else if even f then f else f + 1)"

definition round_half_toward_zero :: "rat \<Rightarrow> int" where
  "round_half_toward_zero x = (if 0 \<le> x then \<lceil>x - 1 / 2\<rceil> else \<lfloor>x + 1 / 2\<rfloor>)"

subsection \<open>Invariant of the memo cells, and the view as a function of props and state\<close>

definition cells_ok ::
  "(jsstring \<Rightarrow> jsstring) \<Rightarrow> (Workflow list \<Rightarrow> 's) \<Rightarrow> 's Hooks \<Rightarrow> bool" where
  "cells_ok lower computeSummary h \<longleftrightarrow>
     (\<forall>d v. memo_clients h = Some (d, v) \<longrightarrow> v = clients d) \<and>
     (\<forall>c s t w v. memo_filtered h = Some ((c, s, t, w), v) \<longrightarrow>
        v = filteredWorkflows lower w c s t) \<and>
     (\<forall>d v. memo_summary h = Some (d, v) \<longrightarrow> v = computeSummary d) \<and>
     (\<forall>d i v. memo_selected h = Some ((d, i), v) \<longrightarrow> v = selectedWorkflow d i)"

definition derived_view ::
  "(jsstring \<Rightarrow> jsstring) \<Rightarrow> (Workflow list \<Rightarrow> 's) \<Rightarrow> Workflow list \<Rightarrow> DashboardState \<Rightarrow>
     's View" where
  "derived_view lower computeSummary ws st =
     (let fw = filteredWorkflows lower ws (clientFilter st) (statusFilter st) (searchTerm st)
      in \<lparr> view_clients = clients ws, view_filtered = fw,
           view_summary = computeSummary fw,
           view_selected = selectedWorkflow fw (selectedWorkflowId st) \<rparr>)"

definition instance_ok ::
  "(jsstring \<Rightarrow> jsstring) \<Rightarrow> (Workflow list \<Rightarrow> 's) \<Rightarrow> 's Instance \<Rightarrow> bool" where
  "instance_ok lower computeSummary inst \<longleftrightarrow>
     cells_ok lower computeSummary (hooks inst) \<and>
     view inst = derived_view lower computeSummary (props inst) (state inst)"

subsection \<open>The lower-case mapping on Latin and Greek text\<close>

text \<open>
  \<^verbatim>\<open>String.prototype.toLowerCase\<close> on the strings used as examples: those whose code units
  are in Basic Latin, in Latin-1 Supplement (up to \<open>0xFF\<close>) or among the Greek letters
  \<open>0x391\<close> to \<open>0x3A9\<close> and \<open>0x3B1\<close> to \<open>0x3C9\<close>. On these the Unicode default lower-case
  conversion maps each capital letter to the code unit 32 above it, except that a capital
  sigma (\<open>0x3A3\<close>) at the end of a word becomes the final sigma \<open>0x3C2\<close>: it is at the end
  of a word when, skipping case-ignorable characters, a cased letter comes before it and
  no cased letter comes after it. No theorem about all strings uses this function.
\<close>

definition lower_unit :: "code_unit \<Rightarrow> code_unit" where
  "lower_unit c =
     (if (0x41 \<le> c \<and> c \<le> 0x5A) \<or> (0xC0 \<le> c \<and> c \<le> 0xDE \<and> c \<noteq> 0xD7) \<or>
         (0x391 \<le> c \<and> c \<le> 0x3A9 \<and> c \<noteq> 0x3A2)
      then c + 0x20 else c)"

definition cased :: "code_unit \<Rightarrow> bool" where
  "cased c \<longleftrightarrow>
     (0x41 \<le> c \<and> c \<le> 0x5A) \<or> (0x61 \<le> c \<and> c \<le> 0x7A) \<or>
     c = 0xAA \<or> c = 0xB5 \<or> c = 0xBA \<or>
     (0xC0 \<le> c \<and> c \<le> 0xD6) \<or> (0xD8 \<le> c \<and> c \<le> 0xF6) \<or> (0xF8 \<le> c \<and> c \<le> 0xFF) \<or>
     (0x391 \<le> c \<and> c \<le> 0x3A1) \<or> (0x3A3 \<le> c \<and> c \<le> 0x3A9) \<or>
     (0x3B1 \<le> c \<and> c \<le> 0x3C9)"

definition case_ignorable :: "code_unit \<Rightarrow> bool" where
  "case_ignorable c \<longleftrightarrow>
     c \<in> set [0x27, 0x2E, 0x3A, 0x5E, 0x60, 0xA8, 0xAD, 0xAF, 0xB4, 0xB7, 0xB8]"

definition cased_first :: "jsstring \<Rightarrow> bool" where
  "cased_first s = (case dropWhile case_ignorable s of [] \<Rightarrow> False | c # _ \<Rightarrow> cased c)"

text \<open>The first argument holds the code units already passed, the nearest first.\<close>

fun lower_from :: "jsstring \<Rightarrow> jsstring \<Rightarrow> jsstring" where
  "lower_from before [] = []"
| "lower_from before (c # after) =
     (if c = 0x3A3 \<and> cased_first before \<and> \<not> cased_first after then 0x3C2
      else lower_unit c) # lower_from (c # before) after"

definition toLowerCase_latin_greek :: "jsstring \<Rightarrow> jsstring" where
  "toLowerCase_latin_greek s = lower_from [] s"

subsection \<open>Example data\<close>

text \<open>A workflow whose id, name and client are the given ASCII literals.\<close>

definition example_workflow :: "string \<Rightarrow> string \<Rightarrow> string \<Rightarrow> WorkflowStatus \<Rightarrow> Workflow" where
  "example_workflow i n c s =
     \<lparr> id_wf = str i, name = str n, client = str c, owner = str ''ops'', status = s,
       triggers = [str ''schedule''], runsToday = 3, successRate = 1 / 2, slaBreachRisk = Low,
       lastRunAt = str ''2024-01-01T00:00:00Z'', nextRunAt = None,
       runHistory = [\<lparr> id_run = str ''r1'', timestamp = str ''2024-01-01T00:00:00Z'',
                       durationSeconds = 10, errors = 0 \<rparr>] \<rparr>"

section \<open>Properties\<close>

subsection \<open>Facts about strings\<close>






subsection \<open>The filter\<close>




text \<open>
  C7. The filtered list is never longer than the input, and the filter triple
  \<^verbatim>\<open>("all", "all", "")\<close> returns the input unchanged, whatever the lower-case mapping.
\<close>

theorem filter_monotone_identity:
  "length (filteredWorkflows lower ws cf sf term) \<le> length ws \<and>
   filteredWorkflows lower ws (str ''all'') AllStatuses [] = ws"
  by (simp add: filteredWorkflows_def matchesClient_def matchesStatus_def matchesSearch_def)

subsection \<open>The selected workflow\<close>

lemma selectedWorkflow_found:
  assumes "find (\<lambda>x. id_wf x = sid) filtered = Some w'"
  shows "selectedWorkflow filtered sid = Some w'"
  using assms by (simp add: selectedWorkflow_def nullish_def)

lemma selectedWorkflow_fallback:
  assumes "find (\<lambda>x. id_wf x = sid) filtered = None"
  shows "selectedWorkflow filtered sid = (case filtered of [] \<Rightarrow> None | x # _ \<Rightarrow> Some x)"
  using assms by (simp add: selectedWorkflow_def nullish_def at_index_def split: list.splits)

lemma find_id_wf_Some:
  assumes "w \<in> set filtered" "id_wf w = sid"
  obtains w' where "find (\<lambda>x. id_wf x = sid) filtered = Some w'"
    "w' \<in> set filtered" "id_wf w' = sid"
proof -
  from assms have "find (\<lambda>x. id_wf x = sid) filtered \<noteq> None"
    by (auto simp: find_None_iff)
  then obtain w' where f: "find (\<lambda>x. id_wf x = sid) filtered = Some w'"
    by blast
  then have "w' \<in> set filtered" "id_wf w' = sid"
    by (auto simp: find_Some_iff)
  with f that show thesis by blast
qed

text \<open>
  C2. When a workflow of the filtered list has the selected id, the result is a workflow
  of the list with that id (the one, when ids are distinct). When none has it and the list
  is not empty, the result is the first element. On the empty list the result is \<open>None\<close>,
  the model of \<^verbatim>\<open>null\<close>. The function is total: no input raises.
\<close>

theorem selectedWorkflow_spec:
  "(w \<in> set filtered \<and> id_wf w = sid \<longrightarrow>
      (\<exists>w'. selectedWorkflow filtered sid = Some w' \<and> w' \<in> set filtered \<and> id_wf w' = sid) \<and>
      (distinct (map id_wf filtered) \<longrightarrow> selectedWorkflow filtered sid = Some w)) \<and>
   ((\<forall>x \<in> set filtered. id_wf x \<noteq> sid) \<and> filtered = w0 # rest \<longrightarrow>
      selectedWorkflow filtered sid = Some w0) \<and>
   selectedWorkflow [] sid = None"
proof (intro conjI impI)
  assume a: "w \<in> set filtered \<and> id_wf w = sid"
  then obtain w' where w': "find (\<lambda>x. id_wf x = sid) filtered = Some w'"
    "w' \<in> set filtered" "id_wf w' = sid"
    using find_id_wf_Some by blast
  then show "\<exists>w'. selectedWorkflow filtered sid = Some w' \<and> w' \<in> set filtered \<and> id_wf w' = sid"
    using selectedWorkflow_found by blast
  assume "distinct (map id_wf filtered)"
  then have "inj_on id_wf (set filtered)"
    by (simp add: distinct_map)
  with a w' have "w' = w"
    by (auto dest: inj_onD)
  with w'(1) show "selectedWorkflow filtered sid = Some w"
    by (simp add: selectedWorkflow_found)
next
  assume a: "(\<forall>x \<in> set filtered. id_wf x \<noteq> sid) \<and> filtered = w0 # rest"
  then have "find (\<lambda>x. id_wf x = sid) filtered = None"
    by (auto simp: find_None_iff)
  with a show "selectedWorkflow filtered sid = Some w0"
    by (simp add: selectedWorkflow_fallback del: find.simps)
next
  show "selectedWorkflow [] sid = None"
    by (simp add: selectedWorkflow_def nullish_def at_index_def)
qed

theorem selectedWorkflow_spec_witness:
  "selectedWorkflow [example_workflow ''1'' ''a'' ''A'' Healthy, example_workflow ''2'' ''b'' ''B'' Failed] (str ''2'')
     = Some (example_workflow ''2'' ''b'' ''B'' Failed) \<and>
   selectedWorkflow [example_workflow ''1'' ''a'' ''A'' Healthy, example_workflow ''2'' ''b'' ''B'' Failed] (str ''7'')
     = Some (example_workflow ''1'' ''a'' ''A'' Healthy)"
proof -
  let ?w1 = "example_workflow ''1'' ''a'' ''A'' Healthy" and ?w2 = "example_workflow ''2'' ''b'' ''B'' Failed"
  have ids: "id_wf ?w1 = str ''1''" "id_wf ?w2 = str ''2''"
    by (simp_all add: example_workflow_def)
  have ne: "str ''1'' \<noteq> str ''2''" "str ''1'' \<noteq> str ''7''" "str ''2'' \<noteq> str ''7''"
    by code_simp+
  from selectedWorkflow_spec [of ?w2 "[?w1, ?w2]" "str ''2''" ?w1 "[?w2]"]
  have a: "selectedWorkflow [?w1, ?w2] (str ''2'') = Some ?w2"
    using ids ne by simp
  from selectedWorkflow_spec [of ?w2 "[?w1, ?w2]" "str ''7''" ?w1 "[?w2]"]
  have b: "selectedWorkflow [?w1, ?w2] (str ''7'') = Some ?w1"
    using ids ne by simp
  from a b show ?thesis by simp
qed

subsection \<open>Initial state\<close>

text \<open>
  C10. A freshly mounted component has the state given by the \<^verbatim>\<open>useState\<close> initialisers:
  client filter \<^verbatim>\<open>"all"\<close>, status filter \<^verbatim>\<open>"all"\<close>, empty search term, and, when the
  collection is not empty, the id of its first workflow as the selected id.
\<close>

theorem initial_state_defaults:
  "state (mount lower cs ws) = initialState ws \<and>
   clientFilter (initialState ws) = str ''all'' \<and>
   statusFilter (initialState ws) = AllStatuses \<and>
   searchTerm (initialState ws) = [] \<and>
   (ws = w # rest \<longrightarrow> selectedWorkflowId (initialState ws) = id_wf w)"
  by (auto simp: mount_def rendered_def initialState_def at_index_def split: prod.splits)

theorem initial_state_defaults_witness:
  "selectedWorkflowId (state (mount toLowerCase_latin_greek computeSummaryMetrics
      [example_workflow ''7'' ''a'' ''A'' Healthy, example_workflow ''2'' ''b'' ''B'' Failed])) = str ''7''"
  using initial_state_defaults [of toLowerCase_latin_greek computeSummaryMetrics
      "[example_workflow ''7'' ''a'' ''A'' Healthy, example_workflow ''2'' ''b'' ''B'' Failed]"
      "example_workflow ''7'' ''a'' ''A'' Healthy" "[example_workflow ''2'' ''b'' ''B'' Failed]"]
  by (simp add: example_workflow_def)

subsection \<open>The summary of no workflows\<close>

text \<open>
  C6. The summary of the empty sequence has every count 0 and both averages the number 0.
  Neither average is ever \<^verbatim>\<open>NaN\<close> or infinite: each is a finite number for every input,
  also when no workflow has any run.
\<close>

theorem summary_zero_guard:
  "computeSummaryMetrics [] =
     \<lparr> totalWorkflows = 0, healthy = 0, warning = 0, failed = 0, paused = 0,
       totalRunsToday = 0, avgSuccessRate = Num 0, averageDurationSeconds = Num 0 \<rparr> \<and>
   (\<exists>r. avgSuccessRate (computeSummaryMetrics ws) = Num r) \<and>
   (\<exists>r. averageDurationSeconds (computeSummaryMetrics ws) = Num r)"
  by (simp add: computeSummaryMetrics_def mean_def count_status_def js_divide_def)


subsection \<open>Renders: the memo cells never hold a stale value\<close>

lemma useMemo_fst:
  assumes "\<And>d v. cell = Some (d, v) \<Longrightarrow> v = f d"
  shows "fst (useMemo (f deps) deps cell) = f deps"
  using assms by (auto simp: useMemo_def split: option.splits)

lemma useMemo_snd:
  assumes "\<And>d v. cell = Some (d, v) \<Longrightarrow> v = f d"
    and "snd (useMemo (f deps) deps cell) = Some (d', v')"
  shows "v' = f d'"
  using assms by (auto simp: useMemo_def split: option.splits if_splits)

lemma useMemo_ok:
  assumes "\<And>d v. cell = Some (d, v) \<Longrightarrow> v = f d"
  obtains cell' where "useMemo (f deps) deps cell = (f deps, cell')"
    and "\<And>d v. cell' = Some (d, v) \<Longrightarrow> v = f d"
proof -
  obtain x cell' where eq: "useMemo (f deps) deps cell = (x, cell')"
    by (cases "useMemo (f deps) deps cell")
  from eq have "x = f deps"
    using useMemo_fst [where f = f and deps = deps and cell = cell] assms by simp
  moreover have "v = f d" if "cell' = Some (d, v)" for d v
    using useMemo_snd [where f = f and deps = deps and cell = cell and d' = d and v' = v] assms eq that by simp
  ultimately show thesis
    using eq that by blast
qed

lemma WorkflowDashboard_ok:
  assumes "cells_ok lower cs h"
  shows "fst (WorkflowDashboard lower cs ws st h) = derived_view lower cs ws st"
    and "cells_ok lower cs (snd (WorkflowDashboard lower cs ws st h))"
proof -
  let ?fw = "filteredWorkflows lower ws (clientFilter st) (statusFilter st) (searchTerm st)"
  obtain m1 where 1: "useMemo (clients ws) ws (memo_clients h) = (clients ws, m1)"
    and m1: "\<And>d v. m1 = Some (d, v) \<Longrightarrow> v = clients d"
    using assms by (rule_tac useMemo_ok [where f = clients and cell = "memo_clients h" and deps = ws])
      (auto simp: cells_ok_def)
  obtain m2 where 2: "useMemo ?fw (clientFilter st, statusFilter st, searchTerm st, ws)
        (memo_filtered h) = (?fw, m2)"
    and m2: "\<And>d v. m2 = Some (d, v) \<Longrightarrow> v = (\<lambda>(c, s, t, w). filteredWorkflows lower w c s t) d"
    using assms
    by (rule_tac useMemo_ok [where f = "\<lambda>(c, s, t, w). filteredWorkflows lower w c s t"
          and cell = "memo_filtered h"
          and deps = "(clientFilter st, statusFilter st, searchTerm st, ws)"])
       (auto simp: cells_ok_def)
  obtain m3 where 3: "useMemo (cs ?fw) ?fw (memo_summary h) = (cs ?fw, m3)"
    and m3: "\<And>d v. m3 = Some (d, v) \<Longrightarrow> v = cs d"
    using assms by (rule_tac useMemo_ok [where f = cs and cell = "memo_summary h" and deps = ?fw])
      (auto simp: cells_ok_def)
  obtain m4 where 4: "useMemo (selectedWorkflow ?fw (selectedWorkflowId st))
        (?fw, selectedWorkflowId st) (memo_selected h)
        = (selectedWorkflow ?fw (selectedWorkflowId st), m4)"
    and m4: "\<And>d v. m4 = Some (d, v) \<Longrightarrow> v = (\<lambda>(d, i). selectedWorkflow d i) d"
    using assms
    by (rule_tac useMemo_ok [where f = "\<lambda>(d, i). selectedWorkflow d i"
          and cell = "memo_selected h" and deps = "(?fw, selectedWorkflowId st)"])
       (auto simp: cells_ok_def)
  have eq: "WorkflowDashboard lower cs ws st h =
      (\<lparr> view_clients = clients ws, view_filtered = ?fw, view_summary = cs ?fw,
         view_selected = selectedWorkflow ?fw (selectedWorkflowId st) \<rparr>,
       \<lparr> memo_clients = m1, memo_filtered = m2, memo_summary = m3, memo_selected = m4 \<rparr>)"
    unfolding WorkflowDashboard_def 1 Let_def prod.case 2 3 4 ..
  show "fst (WorkflowDashboard lower cs ws st h) = derived_view lower cs ws st"
    unfolding eq derived_view_def Let_def by simp
  show "cells_ok lower cs (snd (WorkflowDashboard lower cs ws st h))"
    unfolding eq cells_ok_def using m1 m2 m3 m4 by auto
qed

lemma rendered_ok:
  assumes "cells_ok lower cs h"
  shows "instance_ok lower cs (rendered lower cs ws st h)"
    and "props (rendered lower cs ws st h) = ws"
    and "state (rendered lower cs ws st h) = st"
  using WorkflowDashboard_ok [OF assms, of ws st]
  by (simp_all add: rendered_def instance_ok_def split_beta)

lemma mount_ok: "instance_ok lower cs (mount lower cs ws)"
  unfolding mount_def by (rule rendered_ok) (simp add: cells_ok_def)

lemma step_ok:
  assumes "instance_ok lower cs inst"
  shows "instance_ok lower cs (step lower cs inst ev)"
proof -
  from assms have "cells_ok lower cs (hooks inst)"
    by (simp add: instance_ok_def)
  then show ?thesis
    by (cases ev) (simp_all add: rendered_ok(1))
qed

lemma foldl_step_ok: "instance_ok lower cs inst \<Longrightarrow> instance_ok lower cs (foldl (step lower cs) inst evs)"
  by (induction evs arbitrary: inst) (simp_all add: step_ok)

lemma run_ok: "instance_ok lower cs (run lower cs ws evs)"
  unfolding run_def by (rule foldl_step_ok) (rule mount_ok)

lemma run_append: "run lower cs ws (evs0 @ evs) = foldl (step lower cs) (run lower cs ws evs0) evs"
  by (simp add: run_def)

text \<open>
  C8. After any sequence of setter calls and re-renders with new props, the filtered list
  on display is the filter applied to the current props and filter state, and the summary
  on display is the aggregator applied to exactly that list. The aggregator is a parameter
  of the render: it receives the filtered list and nothing else, for any aggregator.
\<close>

theorem summary_over_filtered:
  "view_filtered (view (run lower cs ws evs)) =
     filteredWorkflows lower (props (run lower cs ws evs)) (clientFilter (state (run lower cs ws evs)))
       (statusFilter (state (run lower cs ws evs))) (searchTerm (state (run lower cs ws evs))) \<and>
   view_summary (view (run lower cs ws evs)) =
     cs (filteredWorkflows lower (props (run lower cs ws evs)) (clientFilter (state (run lower cs ws evs)))
       (statusFilter (state (run lower cs ws evs))) (searchTerm (state (run lower cs ws evs))))"
  using run_ok [of lower cs ws evs]
  by (simp add: instance_ok_def derived_view_def Let_def)

subsection \<open>The selected id across filter changes\<close>

lemma rendered_state: "state (rendered lower cs ws st h) = st"
  by (simp add: rendered_def split_beta)

lemma dispatch_selected:
  "selectedWorkflowId (dispatch st a) =
     (case a of SetSelectedWorkflowId v \<Rightarrow> v | _ \<Rightarrow> selectedWorkflowId st)"
  by (cases a) simp_all

lemma step_keeps_selected:
  "selectedWorkflowId (state (step lower cs inst ev)) = selectedWorkflowId (state inst)"
  if "\<not> is_selection ev"
proof (cases ev)
  case (User a)
  with that show ?thesis
    by (cases a) (simp_all add: rendered_state)
next
  case (NewProps ws')
  then show ?thesis
    by (simp add: rendered_state)
qed

lemma foldl_step_keeps_selected:
  "\<forall>e \<in> set evs. \<not> is_selection e \<Longrightarrow>
     selectedWorkflowId (state (foldl (step lower cs) inst evs)) = selectedWorkflowId (state inst)"
  by (induction evs arbitrary: inst) (simp_all add: step_keeps_selected)

text \<open>
  C9. Setting the client filter, the status filter or the search term leaves the stored
  selected id unchanged; a setter call that changes it is a call of
  \<^verbatim>\<open>setSelectedWorkflowId\<close>. Hence after any events none of which is a selection, the stored
  id is what it was, and as soon as the filtered list holds a workflow with that id the
  resolved selection has that id again (and is that workflow, when ids are distinct).
\<close>

theorem selection_sticky:
  "selectedWorkflowId (dispatch st (SetClientFilter c)) = selectedWorkflowId st \<and>
   selectedWorkflowId (dispatch st (SetStatusFilter f)) = selectedWorkflowId st \<and>
   selectedWorkflowId (dispatch st (SetSearchTerm t)) = selectedWorkflowId st \<and>
   (selectedWorkflowId (dispatch st a) \<noteq> selectedWorkflowId st \<longrightarrow> (\<exists>v. a = SetSelectedWorkflowId v)) \<and>
   ((\<forall>e \<in> set evs. \<not> is_selection e) \<longrightarrow>
      selectedWorkflowId (state (run lower cs ws (evs0 @ evs))) = selectedWorkflowId (state (run lower cs ws evs0)) \<and>
      (w \<in> set (view_filtered (view (run lower cs ws (evs0 @ evs)))) \<and>
       id_wf w = selectedWorkflowId (state (run lower cs ws evs0)) \<longrightarrow>
         (\<exists>w'. view_selected (view (run lower cs ws (evs0 @ evs))) = Some w' \<and> id_wf w' = id_wf w) \<and>
         (distinct (map id_wf (props (run lower cs ws (evs0 @ evs)))) \<longrightarrow>
            view_selected (view (run lower cs ws (evs0 @ evs))) = Some w)))"
proof (intro conjI impI)
  show "selectedWorkflowId (dispatch st a) \<noteq> selectedWorkflowId st \<Longrightarrow> \<exists>v. a = SetSelectedWorkflowId v"
    by (cases a) simp_all
next
  assume ns: "\<forall>e \<in> set evs. \<not> is_selection e"
  let ?i = "run lower cs ws (evs0 @ evs)"
  show keep: "selectedWorkflowId (state ?i) = selectedWorkflowId (state (run lower cs ws evs0))"
    using ns by (simp add: run_append foldl_step_keeps_selected)
  assume w: "w \<in> set (view_filtered (view ?i)) \<and> id_wf w = selectedWorkflowId (state (run lower cs ws evs0))"
  have sel: "view_selected (view ?i) = selectedWorkflow (view_filtered (view ?i)) (selectedWorkflowId (state ?i))"
    and fw: "view_filtered (view ?i) = filteredWorkflows lower (props ?i) (clientFilter (state ?i))
       (statusFilter (state ?i)) (searchTerm (state ?i))"
    using run_ok [of lower cs ws "evs0 @ evs"]
    by (simp_all add: instance_ok_def derived_view_def Let_def)
  from w keep obtain w' where w': "find (\<lambda>x. id_wf x = selectedWorkflowId (state ?i)) (view_filtered (view ?i)) = Some w'"
    "w' \<in> set (view_filtered (view ?i))" "id_wf w' = selectedWorkflowId (state ?i)"
    using find_id_wf_Some [of w "view_filtered (view ?i)" "selectedWorkflowId (state ?i)"] by auto
  then have res: "view_selected (view ?i) = Some w'"
    by (simp add: sel selectedWorkflow_found)
  with w' w keep show "\<exists>w'. view_selected (view ?i) = Some w' \<and> id_wf w' = id_wf w"
    by simp
  assume "distinct (map id_wf (props ?i))"
  then have "distinct (map id_wf (view_filtered (view ?i)))"
    unfolding fw filteredWorkflows_def by (rule distinct_map_filter)
  then have "inj_on id_wf (set (view_filtered (view ?i)))"
    by (simp add: distinct_map)
  moreover have "id_wf w' = id_wf w"
    using w w' keep by simp
  ultimately have "w' = w"
    using w w'(2) by (auto simp: inj_on_def)
  with res show "view_selected (view ?i) = Some w"
    by simp
qed simp_all

theorem summary_over_filtered_witness:
  "totalWorkflows (view_summary (view (run toLowerCase_latin_greek computeSummaryMetrics
      [example_workflow ''1'' ''sync'' ''A'' Healthy, example_workflow ''2'' ''bill'' ''B'' Failed,
       example_workflow ''3'' ''crm'' ''A'' Warning]
      [User (SetSearchTerm (str ''x'')), User (SetSearchTerm []), User (SetClientFilter (str ''A''))]))) = 2"
proof -
  let ?ws = "[example_workflow ''1'' ''sync'' ''A'' Healthy, example_workflow ''2'' ''bill'' ''B'' Failed,
       example_workflow ''3'' ''crm'' ''A'' Warning]"
  let ?evs = "[User (SetSearchTerm (str ''x'')), User (SetSearchTerm []), User (SetClientFilter (str ''A''))]"
  have p: "props (run toLowerCase_latin_greek computeSummaryMetrics ?ws ?evs) = ?ws"
    by code_simp
  have st: "state (run toLowerCase_latin_greek computeSummaryMetrics ?ws ?evs) =
      \<lparr> clientFilter = str ''A'', statusFilter = AllStatuses, searchTerm = [], selectedWorkflowId = str ''1'' \<rparr>"
    by code_simp
  have "totalWorkflows (computeSummaryMetrics (filteredWorkflows toLowerCase_latin_greek ?ws (str ''A'') AllStatuses [])) = 2"
    by code_simp
  with summary_over_filtered [of toLowerCase_latin_greek computeSummaryMetrics ?ws ?evs] show ?thesis
    unfolding p st by simp
qed

theorem selection_sticky_witness:
  "view_selected (view (run toLowerCase_latin_greek computeSummaryMetrics
      [example_workflow ''1'' ''sync'' ''A'' Healthy, example_workflow ''2'' ''bill'' ''B'' Failed]
      ([User (SetSelectedWorkflowId (str ''2''))] @ [User (SetClientFilter (str ''A''))])))
     = Some (example_workflow ''1'' ''sync'' ''A'' Healthy) \<and>
   view_selected (view (run toLowerCase_latin_greek computeSummaryMetrics
      [example_workflow ''1'' ''sync'' ''A'' Healthy, example_workflow ''2'' ''bill'' ''B'' Failed]
      ([User (SetSelectedWorkflowId (str ''2''))] @ [User (SetClientFilter (str ''A'')), User (SetClientFilter (str ''all''))])))
     = Some (example_workflow ''2'' ''bill'' ''B'' Failed)"
proof -
  let ?w1 = "example_workflow ''1'' ''sync'' ''A'' Healthy"
  let ?w2 = "example_workflow ''2'' ''bill'' ''B'' Failed"
  let ?pre = "[User (SetSelectedWorkflowId (str ''2''))]"
  let ?post = "[User (SetClientFilter (str ''A'')), User (SetClientFilter (str ''all''))]"
  have out: "view_selected (view (run toLowerCase_latin_greek computeSummaryMetrics [?w1, ?w2]
      (?pre @ [User (SetClientFilter (str ''A''))]))) = Some ?w1"
    by code_simp
  have ns: "\<forall>e \<in> set ?post. \<not> is_selection e"
    by simp
  have fw: "view_filtered (view (run toLowerCase_latin_greek computeSummaryMetrics [?w1, ?w2] (?pre @ ?post))) = [?w1, ?w2]"
    by code_simp
  have p: "props (run toLowerCase_latin_greek computeSummaryMetrics [?w1, ?w2] (?pre @ ?post)) = [?w1, ?w2]"
    by code_simp
  have sid: "selectedWorkflowId (state (run toLowerCase_latin_greek computeSummaryMetrics [?w1, ?w2] ?pre)) = str ''2''"
    by code_simp
  have ids: "id_wf ?w1 = str ''1''" "id_wf ?w2 = str ''2''"
    by (simp_all add: example_workflow_def)
  have ne: "str ''1'' \<noteq> str ''2''"
    by code_simp
  from selection_sticky [of _ _ _ _ _ ?post toLowerCase_latin_greek computeSummaryMetrics "[?w1, ?w2]" ?pre ?w2]
  have "view_selected (view (run toLowerCase_latin_greek computeSummaryMetrics [?w1, ?w2] (?pre @ ?post))) = Some ?w2"
    using ns unfolding fw p sid by (simp add: ids ne)
  with out show ?thesis by simp
qed


subsection \<open>The relative-time label\<close>

lemma Math_round_nonneg: "0 \<le> x \<Longrightarrow> 0 \<le> Math_round x"
  by (simp add: Math_round_def)

lemma Math_round_half_away: "0 \<le> x \<Longrightarrow> Math_round x = round_half_away x"
  by (simp add: Math_round_def round_half_away_def)

lemma abs_Math_round_neg:
  assumes "x < 0"
  shows "\<bar>Math_round x\<bar> = round_half_toward_zero (- x)"
proof -
  from assms have "x + 1 / 2 < 1" by simp
  then have "\<lfloor>x + 1 / 2\<rfloor> \<le> 0"
    by (simp add: floor_le_iff)
  then have "\<bar>Math_round x\<bar> = - \<lfloor>x + 1 / 2\<rfloor>"
    by (simp add: Math_round_def)
  also have "\<dots> = \<lceil>- (x + 1 / 2)\<rceil>"
    by (simp only: ceiling_minus)
  also have "- (x + 1 / 2) = - x - 1 / 2"
    by simp
  finally show ?thesis
    using assms by (simp add: round_half_toward_zero_def)
qed

lemma diffMins_nonneg: "0 \<le> d \<Longrightarrow> 0 \<le> diffMins d"
  by (simp add: diffMins_def Math_round_nonneg)

lemma diffHours_nonneg: "0 \<le> d \<Longrightarrow> 0 \<le> diffHours d"
  by (simp add: diffHours_def Math_round_nonneg diffMins_nonneg)

lemma diffMins_less_iff: "diffMins d < k \<longleftrightarrow> d < 60000 * k - 30000"
proof -
  have "diffMins d < k \<longleftrightarrow> (of_int d / 60000 + 1 / 2 :: rat) < of_int k"
    by (simp add: diffMins_def Math_round_def floor_less_iff)
  also have "\<dots> \<longleftrightarrow> (of_int d :: rat) < of_int (60000 * k - 30000)"
    by (simp add: field_simps)
  also have "\<dots> \<longleftrightarrow> d < 60000 * k - 30000"
    by (simp only: of_int_less_iff)
  finally show ?thesis .
qed

lemma append_space_ne_Now:
  assumes "CHR '' '' \<in> set s"
  shows "x @ s \<noteq> ''Now''"
proof
  assume eq: "x @ s = ''Now''"
  from assms have "CHR '' '' \<in> set (x @ s)"
    by simp
  then have "CHR '' '' \<in> set ''Now''"
    unfolding eq .
  then show False
    by simp
qed

lemma formatDiff_Now_iff: "formatDiff d = ''Now'' \<longleftrightarrow> 0 \<le> d \<and> d < 30000"
proof (cases "d < 0")
  case True
  then show ?thesis
    by (simp add: formatDiff_def)
next
  case False
  then show ?thesis
    using diffMins_less_iff [of d 1]
    by (simp add: formatDiff_def append_space_ne_Now)
qed


text \<open>
  C3, as amended. For every clock reading \<open>now\<close>: a target 59 s in the past is labelled
  \<^verbatim>\<open>1 min ago\<close>, since the minutes are rounded to the nearest integer; the label is \<^verbatim>\<open>Now\<close>
  exactly for the targets at most 29.999 s in the past. A target 60 s in the past is
  labelled \<^verbatim>\<open>1 min ago\<close>, one 3600 s in the past \<^verbatim>\<open>1 hr ago\<close>, and one 30 s in the future
  \<^verbatim>\<open>In moments\<close>.
\<close>

theorem boundary_labels:
  "formatRelative now (Some (now - 59000)) = ''1 min ago'' \<and>
   (formatRelative now (Some (now - d)) = ''Now'' \<longleftrightarrow> 0 \<le> d \<and> d < 30000) \<and>
   formatRelative now (Some (now - 60000)) = ''1 min ago'' \<and>
   formatRelative now (Some (now - 3600000)) = ''1 hr ago'' \<and>
   formatRelative now (Some (now + 30000)) = ''In moments''"
proof -
  have 1: "formatDiff 59000 = ''1 min ago''" by code_simp
  have 3: "formatDiff 60000 = ''1 min ago''" by code_simp
  have 4: "formatDiff 3600000 = ''1 hr ago''" by code_simp
  have 5: "formatDiff (- 30000) = ''In moments''" by code_simp
  show ?thesis
    by (simp add: formatRelative_def 1 3 4 5 formatDiff_Now_iff)
qed

text \<open>
  C3 as stated fails in its first equation: with the clock at 100000 ms, the target 59 s
  earlier is not labelled \<^verbatim>\<open>Now\<close>.
\<close>

theorem boundary_59s_counterexample:
  "formatRelative 100000 (Some (100000 - 59000)) \<noteq> ''Now''"
proof -
  have "formatRelative 100000 (Some (100000 - 59000)) = ''1 min ago''"
    by code_simp
  then show ?thesis
    by simp
qed

text \<open>
  C4, as amended. The function has no parameter for the reference instant: it reads the
  clock itself. Its label is determined by the clock reading and the target, and by their
  difference alone: two calls in which the reading minus the target is the same return the
  same label.
\<close>

theorem label_depends_on_difference:
  "c1 - t1 = c2 - t2 \<Longrightarrow> formatRelative c1 (Some t1) = formatRelative c2 (Some t2)"
  by (simp add: formatRelative_def)

theorem label_depends_on_difference_witness:
  "formatRelative 1000 (Some 400) = formatRelative 7000 (Some 6400)"
  using label_depends_on_difference [of 1000 400 7000 6400] by simp

text \<open>
  C4 as stated fails: the same target, evaluated when the clock reads 0 and when it reads
  60000, gets two different labels.
\<close>

theorem clock_read_counterexample:
  "formatRelative 0 (Some 0) \<noteq> formatRelative 60000 (Some 0)"
proof -
  have "formatRelative 0 (Some 0) = ''Now''" "formatRelative 60000 (Some 0) = ''1 min ago''"
    by code_simp+
  then show ?thesis
    by simp
qed

lemma futureMinutes_nonneg: "0 \<le> futureMinutes d"
  by (simp add: futureMinutes_def)

lemma futureHours_nonneg: "0 \<le> futureHours d"
  by (simp add: futureHours_def Math_round_nonneg futureMinutes_nonneg)

lemma past_rounding:
  assumes "0 \<le> d"
  shows "diffMins d = round_half_away (of_int d / 60000)"
    and "diffHours d = round_half_away (of_int (diffMins d) / 60)"
    and "diffDays d = round_half_away (of_int (diffHours d) / 24)"
proof -
  from assms have m: "0 \<le> diffMins d"
    by (rule diffMins_nonneg)
  from assms have h: "0 \<le> diffHours d"
    by (rule diffHours_nonneg)
  show "diffMins d = round_half_away (of_int d / 60000)"
    unfolding diffMins_def using assms by (intro Math_round_half_away) simp
  show "diffHours d = round_half_away (of_int (diffMins d) / 60)"
    unfolding diffHours_def using m by (intro Math_round_half_away) simp
  show "diffDays d = round_half_away (of_int (diffHours d) / 24)"
    unfolding diffDays_def using h by (intro Math_round_half_away) simp
qed

lemma future_rounding:
  assumes "d < 0"
  shows "futureMinutes d = round_half_toward_zero (of_int \<bar>d\<bar> / 60000)"
    and "futureHours d = round_half_away (of_int (futureMinutes d) / 60)"
    and "futureDays d = round_half_away (of_int (futureHours d) / 24)"
proof -
  from assms have "(of_int d / 60000 :: rat) < 0"
    by simp
  then have "futureMinutes d = round_half_toward_zero (- (of_int d / 60000))"
    unfolding futureMinutes_def by (rule abs_Math_round_neg)
  also have "- (of_int d / 60000 :: rat) = of_int \<bar>d\<bar> / 60000"
    using assms by simp
  finally show "futureMinutes d = round_half_toward_zero (of_int \<bar>d\<bar> / 60000)" .
  show "futureHours d = round_half_away (of_int (futureMinutes d) / 60)"
    unfolding futureHours_def using futureMinutes_nonneg [of d]
    by (intro Math_round_half_away) simp
  show "futureDays d = round_half_away (of_int (futureHours d) / 24)"
    unfolding futureDays_def using futureHours_nonneg [of d]
    by (intro Math_round_half_away) simp
qed

lemma past_labels:
  assumes "0 \<le> d"
  shows "1 \<le> diffMins d \<and> diffMins d < 60 \<longrightarrow>
           formatDiff d = number_toString (diffMins d) @ '' min ago''"
    and "60 \<le> diffMins d \<and> diffHours d < 24 \<longrightarrow>
           formatDiff d = number_toString (diffHours d) @ '' hr ago''"
    and "60 \<le> diffMins d \<and> 24 \<le> diffHours d \<longrightarrow>
           formatDiff d = number_toString (diffDays d) @ ''d ago''"
  using assms by (simp_all add: formatDiff_def)

lemma future_labels:
  assumes "d < 0"
  shows "1 \<le> futureMinutes d \<and> futureMinutes d < 60 \<longrightarrow>
           formatDiff d = ''In '' @ number_toString (futureMinutes d) @ '' min''"
    and "60 \<le> futureMinutes d \<and> futureHours d < 24 \<longrightarrow>
           formatDiff d = ''In '' @ number_toString (futureHours d) @ '' hr''"
    and "60 \<le> futureMinutes d \<and> 24 \<le> futureHours d \<longrightarrow>
           formatDiff d = ''In '' @ number_toString (futureDays d) @ ''d''"
  using assms by (simp_all add: formatDiff_def)

text \<open>
  C5, as amended. Every rounding is \<^verbatim>\<open>Math.round\<close>, applied to the signed quotient. For a
  past target it agrees with round-half-away-from-zero at the minute, hour and day tier.
  For a future target it agrees with it at the hour and day tier, while at the minute tier
  the magnitude is rounded with ties toward zero. A label is in minutes when the rounded
  minutes are from 1 to 59, in hours when the rounded minutes have reached 60 and the
  rounded hours are below 24, and in days when the rounded hours have reached 24. A target
  exactly 60 minutes in the past is labelled \<^verbatim>\<open>1 hr ago\<close>, and so is one 59 min 30 s in the
  past.
\<close>

theorem rounding_and_thresholds:
  "(0 \<le> d \<longrightarrow>
      diffMins d = round_half_away (of_int d / 60000) \<and>
      diffHours d = round_half_away (of_int (diffMins d) / 60) \<and>
      diffDays d = round_half_away (of_int (diffHours d) / 24) \<and>
      (1 \<le> diffMins d \<and> diffMins d < 60 \<longrightarrow>
         formatDiff d = number_toString (diffMins d) @ '' min ago'') \<and>
      (60 \<le> diffMins d \<and> diffHours d < 24 \<longrightarrow>
         formatDiff d = number_toString (diffHours d) @ '' hr ago'') \<and>
      (60 \<le> diffMins d \<and> 24 \<le> diffHours d \<longrightarrow>
         formatDiff d = number_toString (diffDays d) @ ''d ago'')) \<and>
   (d < 0 \<longrightarrow>
      futureMinutes d = round_half_toward_zero (of_int \<bar>d\<bar> / 60000) \<and>
      futureHours d = round_half_away (of_int (futureMinutes d) / 60) \<and>
      futureDays d = round_half_away (of_int (futureHours d) / 24) \<and>
      (1 \<le> futureMinutes d \<and> futureMinutes d < 60 \<longrightarrow>
         formatDiff d = ''In '' @ number_toString (futureMinutes d) @ '' min'') \<and>
      (60 \<le> futureMinutes d \<and> futureHours d < 24 \<longrightarrow>
         formatDiff d = ''In '' @ number_toString (futureHours d) @ '' hr'') \<and>
      (60 \<le> futureMinutes d \<and> 24 \<le> futureHours d \<longrightarrow>
         formatDiff d = ''In '' @ number_toString (futureDays d) @ ''d'')) \<and>
   formatRelative now (Some (now - 3600000)) = ''1 hr ago'' \<and>
   formatRelative now (Some (now - 3570000)) = ''1 hr ago''"
proof (intro conjI)
  show "0 \<le> d \<longrightarrow>
      diffMins d = round_half_away (of_int d / 60000) \<and>
      diffHours d = round_half_away (of_int (diffMins d) / 60) \<and>
      diffDays d = round_half_away (of_int (diffHours d) / 24) \<and>
      (1 \<le> diffMins d \<and> diffMins d < 60 \<longrightarrow>
         formatDiff d = number_toString (diffMins d) @ '' min ago'') \<and>
      (60 \<le> diffMins d \<and> diffHours d < 24 \<longrightarrow>
         formatDiff d = number_toString (diffHours d) @ '' hr ago'') \<and>
      (60 \<le> diffMins d \<and> 24 \<le> diffHours d \<longrightarrow>
         formatDiff d = number_toString (diffDays d) @ ''d ago'')"
    using past_rounding [of d] past_labels [of d] by blast
  show "d < 0 \<longrightarrow>
      futureMinutes d = round_half_toward_zero (of_int \<bar>d\<bar> / 60000) \<and>
      futureHours d = round_half_away (of_int (futureMinutes d) / 60) \<and>
      futureDays d = round_half_away (of_int (futureHours d) / 24) \<and>
      (1 \<le> futureMinutes d \<and> futureMinutes d < 60 \<longrightarrow>
         formatDiff d = ''In '' @ number_toString (futureMinutes d) @ '' min'') \<and>
      (60 \<le> futureMinutes d \<and> futureHours d < 24 \<longrightarrow>
         formatDiff d = ''In '' @ number_toString (futureHours d) @ '' hr'') \<and>
      (60 \<le> futureMinutes d \<and> 24 \<le> futureHours d \<longrightarrow>
         formatDiff d = ''In '' @ number_toString (futureDays d) @ ''d'')"
    using future_rounding [of d] future_labels [of d] by blast
  have "formatDiff 3600000 = ''1 hr ago''"
    by code_simp
  then show "formatRelative now (Some (now - 3600000)) = ''1 hr ago''"
    by (simp add: formatRelative_def)
  have "formatDiff 3570000 = ''1 hr ago''"
    by code_simp
  then show "formatRelative now (Some (now - 3570000)) = ''1 hr ago''"
    by (simp add: formatRelative_def)
qed

theorem rounding_and_thresholds_witness:
  "round_half_away (of_int 90 / 60) = 2 \<and> formatDiff 5400000 = ''2 hr ago'' \<and>
   round_half_toward_zero (of_int \<bar>- 90000\<bar> / 60000) = 1 \<and> formatDiff (- 90000) = ''In 1 min''"
proof -
  have m: "diffMins 5400000 = 90" and h: "diffHours 5400000 = 2"
    and f: "futureMinutes (- 90000) = 1"
    by code_simp+
  have s: "number_toString 2 = ''2''" "number_toString 1 = ''1''"
    by code_simp+
  from rounding_and_thresholds [of 5400000 0] rounding_and_thresholds [of "- 90000" 0]
  show ?thesis
    by (simp add: m h f s)
qed

text \<open>
  C5 as stated fails: no one of the two named rules is used throughout. At 30 s in the past
  the minute count is 1 where round-half-to-even gives 0, and at 30 s in the future it is 0
  where round-half-away-from-zero gives 1; the two labels differ accordingly.
\<close>

theorem rounding_rule_counterexample:
  "diffMins 30000 \<noteq> round_half_even (of_int 30000 / 60000) \<and>
   futureMinutes (- 30000) \<noteq> \<bar>round_half_away (of_int (- 30000) / 60000)\<bar> \<and>
   formatRelative 30000 (Some 0) = ''1 min ago'' \<and>
   formatRelative 0 (Some 30000) = ''In moments''"
proof -
  have "diffMins 30000 = 1" "round_half_even (of_int 30000 / 60000) = 0"
    "futureMinutes (- 30000) = 0" "\<bar>round_half_away (of_int (- 30000) / 60000)\<bar> = 1"
    "formatRelative 30000 (Some 0) = ''1 min ago''"
    "formatRelative 0 (Some 30000) = ''In moments''"
    by code_simp+
  then show ?thesis
    by simp
qed


end
